theory Spec2Isabelle
  imports Complex_Main
begin

section \<open>Data model of the API service layer (services/api.ts)\<close>

text \<open>
  The interfaces \<^verbatim>\<open>BusLocation\<close> and \<^verbatim>\<open>Stop\<close>. Field names carry a prefix because record
  fields are global constants in HOL. A TypeScript \<^verbatim>\<open>number\<close> that holds a coordinate is
  a \<^typ>\<open>real\<close>; an optional field is an \<^typ>\<open>'a option\<close>.
\<close>

datatype occupancy = low | medium | high

record BusLocation =
  bus_id :: string
  bus_routeNumber :: string
  bus_lat :: real
  bus_lng :: real
  bus_direction :: string
  bus_occupancy :: occupancy
  bus_nextStop :: string
  bus_estimatedArrival :: string
  bus_vehicleNumber :: "string option"
  bus_speed :: "real option"
  bus_delay :: "real option"

record Arrival =
  arr_route :: string
  arr_direction :: string
  arr_eta :: string
  arr_occupancy :: occupancy

record Stop =
  stop_id :: string
  stop_name :: string
  stop_lat :: real
  stop_lng :: real
  stop_routes :: "string list"
  stop_nextArrivals :: "Arrival list"
  stop_facilities :: "string list"

section \<open>State of the Map component (components/Map.tsx)\<close>

record LatLng =
  lat :: real
  lng :: real

record Dimensions =
  width :: real
  height :: real

datatype toast = toast_error string | toast_success string | toast_info string

text \<open>
  One field per \<^verbatim>\<open>useState\<close> hook that the tracking pipeline reads or writes, in the
  order of the source, then the handle of the polling interval (\<open>True\<close> between
  \<^verbatim>\<open>setInterval\<close> and \<^verbatim>\<open>clearInterval\<close>) and the toasts shown so far. The hook
  \<^verbatim>\<open>wsConnection\<close> keeps a reference to the transport that nothing reads; the transport
  itself is the field \<open>self\<close> of the world defined with the transport.
\<close>

record MapState =
  buses :: "BusLocation list"
  stops :: "Stop list"
  userLocation :: "LatLng option"
  mapCenter :: LatLng
  zoomLevel :: int
  mapDimensions :: Dimensions
  locationLoading :: bool
  dataLoading :: bool
  updateInterval :: bool
  toasts :: "toast list"

definition Map_initial :: MapState where
  "Map_initial =
     \<lparr>buses = [], stops = [], userLocation = None,
      mapCenter = \<lparr>lat = 40.7128, lng = - 74.0060\<rparr>,
      zoomLevel = 13,
      mapDimensions = \<lparr>width = 800, height = 600\<rparr>,
      locationLoading = False, dataLoading = True,
      updateInterval = False, toasts = []\<rparr>"

subsection \<open>Coordinate projection\<close>

record Bounds =
  minLat :: real
  maxLat :: real
  minLng :: real
  maxLng :: real

definition BOUNDS :: Bounds where
  "BOUNDS = \<lparr>minLat = 40.700, maxLat = 40.800, minLng = - 74.020, maxLng = - 73.940\<rparr>"

record Pixel =
  px_x :: real
  px_y :: real

text \<open>
  JavaScript numbers are IEEE doubles; the model computes with exact reals, so a statement
  about pixel positions holds for the source up to floating-point rounding.
\<close>

definition latLngToPixel :: "real \<Rightarrow> real \<Rightarrow> real \<Rightarrow> real \<Rightarrow> Pixel" where
  "latLngToPixel lat0 lng0 mapWidth mapHeight =
     (let x = ((lng0 - minLng BOUNDS) / (maxLng BOUNDS - minLng BOUNDS)) * mapWidth;
          y = ((maxLat BOUNDS - lat0) / (maxLat BOUNDS - minLat BOUNDS)) * mapHeight
      in \<lparr>px_x = x, px_y = y\<rparr>)"

text \<open>\<^verbatim>\<open>Math.pow(2, zoomLevel - 10)\<close> on an integer zoom level is \<open>2 powi (zoomLevel - 10)\<close>.\<close>

definition getMarkerPosition :: "MapState \<Rightarrow> real \<Rightarrow> real \<Rightarrow> Pixel" where
  "getMarkerPosition s lat0 lng0 =
     (let zoomFactor = 2 powi (zoomLevel s - 10)
      in latLngToPixel
           (lat0 - (lat (mapCenter s) - 40.7128) / zoomFactor)
           (lng0 - (lng (mapCenter s) - (- 74.0060)) / zoomFactor)
           (width (mapDimensions s))
           (height (mapDimensions s)))"

subsection \<open>Zoom controls\<close>


definition handleZoomIn :: "MapState \<Rightarrow> MapState" where
  "handleZoomIn s = s\<lparr>zoomLevel := min (zoomLevel s + 1) 18\<rparr>"

definition handleZoomOut :: "MapState \<Rightarrow> MapState" where
  "handleZoomOut s = s\<lparr>zoomLevel := max (zoomLevel s - 1) 8\<rparr>"

datatype zoom_click = ZoomInClick | ZoomOutClick

fun apply_zoom :: "MapState \<Rightarrow> zoom_click \<Rightarrow> MapState" where
  "apply_zoom s ZoomInClick = handleZoomIn s"
| "apply_zoom s ZoomOutClick = handleZoomOut s"

definition zoom_clicks :: "zoom_click list \<Rightarrow> MapState \<Rightarrow> MapState" where
  "zoom_clicks cs s = foldl apply_zoom s cs"

section \<open>Live transport: class BusTrackingWebSocket (services/api.ts)\<close>

subsection \<open>Platform objects\<close>

text \<open>
  A browser \<^verbatim>\<open>WebSocket\<close> object: the URL it was opened with, its \<^verbatim>\<open>readyState\<close>, and the
  payloads handed to \<^verbatim>\<open>ws.send\<close> so far. A payload is kept as the JSON value the source
  passes to \<^verbatim>\<open>JSON.stringify\<close>.
\<close>

datatype readyState = CONNECTING | OPEN | CLOSING | CLOSED

datatype json = JString string | JArray "json list" | JObject "(string \<times> json) list"

record WebSocket =
  url :: string
  readyState :: readyState
  sent :: "json list"

text \<open>
  The private fields of the class. The field \<^verbatim>\<open>ws\<close> is a reference into the list of socket
  objects of the world below (\<open>None\<close> for \<^verbatim>\<open>null\<close>).
\<close>

record BusTrackingWebSocket =
  ws :: "nat option"
  reconnectAttempts :: nat
  maxReconnectAttempts :: nat
  reconnectDelay :: nat

text \<open>
  Everything the transport reads or writes: its own fields, the socket objects created so
  far, the pending \<^verbatim>\<open>setTimeout\<close> timers (each holds its delay in milliseconds, and its
  callback is always the one scheduled by \<^verbatim>\<open>reconnect\<close>), \<^verbatim>\<open>localStorage\<close>, the configured
  \<^verbatim>\<open>apiConfig.wsURL\<close>, the URLs on which the \<^verbatim>\<open>WebSocket\<close> constructor throws, the console,
  and the state \<open>app\<close> of whoever owns the transport and receives its callbacks.
\<close>

record 'a world =
  self :: BusTrackingWebSocket
  sockets :: "WebSocket list"
  timers :: "nat list"
  localStorage :: "string \<rightharpoonup> string"
  wsURL :: string
  invalid_urls :: "string set"
  console :: "string list"
  app :: 'a

text \<open>The three constructor arguments; a callback acts on the world.\<close>

record 'a callbacks =
  onBusUpdate :: "BusLocation list \<Rightarrow> 'a world \<Rightarrow> 'a world"
  onStopUpdate :: "Stop list \<Rightarrow> 'a world \<Rightarrow> 'a world"
  onError :: "string \<Rightarrow> 'a world \<Rightarrow> 'a world"

text \<open>
  A parsed inbound message. The source types \<^verbatim>\<open>message.data\<close> as \<^verbatim>\<open>any\<close>; the model gives it
  the type that the receiving callback declares.
\<close>

record ws_message =
  msg_type :: string
  msg_buses :: "BusLocation list"
  msg_stops :: "Stop list"
  msg_message :: string

definition console_log :: "string \<Rightarrow> 'a world \<Rightarrow> 'a world" where
  "console_log line w = w\<lparr>console := console w @ [line]\<rparr>"

text \<open>Decimal digits of a number, as a template literal prints it.\<close>

fun decimal :: "nat \<Rightarrow> string" where
  "decimal n =
     (if n < 10 then [char_of (48 + n)]
      else decimal (n div 10) @ [char_of (48 + n mod 10)])"

declare decimal.simps [simp del]

text \<open>A template literal prints \<^verbatim>\<open>null\<close> as the four characters \<^verbatim>\<open>null\<close>.\<close>

fun template :: "string option \<Rightarrow> string" where
  "template None = ''null''"
| "template (Some s) = s"

text \<open>
  \<^verbatim>\<open>new WebSocket(url)\<close>: throws on a URL the platform rejects, otherwise allocates a socket
  in state \<open>CONNECTING\<close> and returns its reference.
\<close>

definition new_WebSocket :: "string \<Rightarrow> 'a world \<Rightarrow> unit + (nat \<times> 'a world)" where
  "new_WebSocket u w =
     (if u \<in> invalid_urls w then Inl ()
      else Inr (length (sockets w),
                w\<lparr>sockets := sockets w @ [\<lparr>url = u, readyState = CONNECTING, sent = []\<rparr>]\<rparr>))"

text \<open>\<^verbatim>\<open>ws.close()\<close> starts the closing handshake unless the socket is closing or closed.\<close>

definition WebSocket_close :: "nat \<Rightarrow> 'a world \<Rightarrow> 'a world" where
  "WebSocket_close sid w =
     (if sid < length (sockets w) \<and> readyState (sockets w ! sid) \<in> {CONNECTING, OPEN}
      then w\<lparr>sockets := (sockets w)[sid := (sockets w ! sid)\<lparr>readyState := CLOSING\<rparr>]\<rparr>
      else w)"

definition WebSocket_send :: "nat \<Rightarrow> json \<Rightarrow> 'a world \<Rightarrow> 'a world" where
  "WebSocket_send sid payload w =
     w\<lparr>sockets := (sockets w)[sid := (sockets w ! sid)\<lparr>sent := sent (sockets w ! sid) @ [payload]\<rparr>]\<rparr>"

subsection \<open>Methods\<close>

definition BusTrackingWebSocket_new :: BusTrackingWebSocket where
  "BusTrackingWebSocket_new =
     \<lparr>ws = None, reconnectAttempts = 0, maxReconnectAttempts = 5, reconnectDelay = 1000\<rparr>"

definition getAuthToken :: "'a world \<Rightarrow> string option" where
  "getAuthToken w = localStorage w ''busTracker_token''"

text \<open>The handlers are attached to the new socket; they are the four \<open>ws_on\<dots>\<close> below.\<close>

definition connect :: "'a callbacks \<Rightarrow> 'a world \<Rightarrow> 'a world" where
  "connect cb w =
     (let wsUrl = wsURL w; token = getAuthToken w
      in case new_WebSocket (wsUrl @ ''?token='' @ template token) w of
           Inr (sid, w') \<Rightarrow> w'\<lparr>self := (self w')\<lparr>ws := Some sid\<rparr>\<rparr>
         | Inl e \<Rightarrow> onError cb ''Failed to establish WebSocket connection'' w)"

definition handleMessage :: "'a callbacks \<Rightarrow> ws_message \<Rightarrow> 'a world \<Rightarrow> 'a world" where
  "handleMessage cb message w =
     (if msg_type message = ''bus_update'' then onBusUpdate cb (msg_buses message) w
      else if msg_type message = ''stop_update'' then onStopUpdate cb (msg_stops message) w
      else if msg_type message = ''error'' then onError cb (msg_message message) w
      else console_log (''Unknown message type: '' @ msg_type message) w)"

definition send :: "json \<Rightarrow> 'a world \<Rightarrow> 'a world" where
  "send message w =
     (case ws (self w) of
        Some sid \<Rightarrow>
          if sid < length (sockets w) \<and> readyState (sockets w ! sid) = OPEN
          then WebSocket_send sid message w else w
      | None \<Rightarrow> w)"

text \<open>
  The delay argument of \<^verbatim>\<open>setTimeout\<close> is evaluated after the increment. The handle that
  \<^verbatim>\<open>setTimeout\<close> returns is dropped.
\<close>

definition reconnect :: "'a world \<Rightarrow> 'a world" where
  "reconnect w =
     (if reconnectAttempts (self w) < maxReconnectAttempts (self w)
      then let t = (self w)\<lparr>reconnectAttempts := reconnectAttempts (self w) + 1\<rparr>
           in w\<lparr>self := t, timers := timers w @ [reconnectDelay t * reconnectAttempts t]\<rparr>
      else w)"

definition disconnect :: "'a world \<Rightarrow> 'a world" where
  "disconnect w =
     (case ws (self w) of
        Some sid \<Rightarrow> (WebSocket_close sid w)\<lparr>self := (self w)\<lparr>ws := None\<rparr>\<rparr>
      | None \<Rightarrow> w)"

subsection \<open>Event handlers and the event loop\<close>

definition subscribe_message :: json where
  "subscribe_message =
     JObject [(''type'', JString ''subscribe''),
              (''data'', JArray [JString ''buses'', JString ''stops''])]"

definition ws_onopen :: "'a world \<Rightarrow> 'a world" where
  "ws_onopen w =
     (let w1 = console_log ''WebSocket connected'' w;
          w2 = w1\<lparr>self := (self w1)\<lparr>reconnectAttempts := 0\<rparr>\<rparr>
      in send subscribe_message w2)"

text \<open>
  The argument is the result of \<^verbatim>\<open>JSON.parse(event.data)\<close>: \<open>None\<close> when it throws, which
  the handler catches.
\<close>

definition ws_onmessage :: "'a callbacks \<Rightarrow> ws_message option \<Rightarrow> 'a world \<Rightarrow> 'a world" where
  "ws_onmessage cb parsed w =
     (case parsed of
        Some message \<Rightarrow> handleMessage cb message w
      | None \<Rightarrow> console_log ''Failed to parse WebSocket message:'' w)"

definition ws_onclose :: "'a world \<Rightarrow> 'a world" where
  "ws_onclose w = reconnect (console_log ''WebSocket disconnected'' w)"

definition ws_onerror :: "'a callbacks \<Rightarrow> 'a world \<Rightarrow> 'a world" where
  "ws_onerror cb w = onError cb ''Connection error occurred'' (console_log ''WebSocket error:'' w)"

definition timer_callback :: "'a callbacks \<Rightarrow> 'a world \<Rightarrow> 'a world" where
  "timer_callback cb w =
     connect cb
       (console_log (''Attempting to reconnect... ('' @ decimal (reconnectAttempts (self w))
                     @ ''/'' @ decimal (maxReconnectAttempts (self w)) @ '')'') w)"

text \<open>
  What the browser can deliver to the transport: the four socket events, each on a socket
  in a state where the platform fires it, and the expiry of a pending timer. Delivering a
  socket event first moves the socket's \<^verbatim>\<open>readyState\<close>, then runs the handler.
\<close>

datatype event =
  SockOpen nat
| SockMessage nat "ws_message option"
| SockClose nat
| SockError nat
| TimerFire nat

definition set_readyState :: "nat \<Rightarrow> readyState \<Rightarrow> 'a world \<Rightarrow> 'a world" where
  "set_readyState sid r w =
     w\<lparr>sockets := (sockets w)[sid := (sockets w ! sid)\<lparr>readyState := r\<rparr>]\<rparr>"

fun enabled :: "event \<Rightarrow> 'a world \<Rightarrow> bool" where
  "enabled (SockOpen sid) w =
     (sid < length (sockets w) \<and> readyState (sockets w ! sid) = CONNECTING)"
| "enabled (SockMessage sid parsed) w =
     (sid < length (sockets w) \<and> readyState (sockets w ! sid) = OPEN)"
| "enabled (SockClose sid) w =
     (sid < length (sockets w) \<and> readyState (sockets w ! sid) \<noteq> CLOSED)"
| "enabled (SockError sid) w =
     (sid < length (sockets w) \<and> readyState (sockets w ! sid) \<noteq> CLOSED)"
| "enabled (TimerFire k) w = (k < length (timers w))"

fun fire :: "'a callbacks \<Rightarrow> event \<Rightarrow> 'a world \<Rightarrow> 'a world" where
  "fire cb (SockOpen sid) w = ws_onopen (set_readyState sid OPEN w)"
| "fire cb (SockMessage sid parsed) w = ws_onmessage cb parsed w"
| "fire cb (SockClose sid) w = ws_onclose (set_readyState sid CLOSED w)"
| "fire cb (SockError sid) w = ws_onerror cb w"
| "fire cb (TimerFire k) w =
     timer_callback cb (w\<lparr>timers := take k (timers w) @ drop (Suc k) (timers w)\<rparr>)"

definition deliver :: "'a callbacks \<Rightarrow> 'a world \<Rightarrow> event \<Rightarrow> 'a world" where
  "deliver cb w e = (if enabled e w then fire cb e w else w)"

definition run :: "'a callbacks \<Rightarrow> event list \<Rightarrow> 'a world \<Rightarrow> 'a world" where
  "run cb es w = foldl (deliver cb) w es"

section \<open>The tracking pipeline of the Map component (components/Map.tsx)\<close>

subsection \<open>Fleet state: the two setters and the transport callbacks\<close>

definition setBuses :: "BusLocation list \<Rightarrow> MapState \<Rightarrow> MapState" where
  "setBuses updatedBuses s = s\<lparr>buses := updatedBuses\<rparr>"

definition setStops :: "Stop list \<Rightarrow> MapState \<Rightarrow> MapState" where
  "setStops updatedStops s = s\<lparr>stops := updatedStops\<rparr>"

definition toast_show :: "toast \<Rightarrow> MapState \<Rightarrow> MapState" where
  "toast_show t s = s\<lparr>toasts := toasts s @ [t]\<rparr>"

text \<open>The three arrow functions that the effect passes to the constructor.\<close>

definition Map_callbacks :: "MapState callbacks" where
  "Map_callbacks =
     \<lparr>onBusUpdate = (\<lambda>updatedBuses w. w\<lparr>app := setBuses updatedBuses (app w)\<rparr>),
      onStopUpdate = (\<lambda>updatedStops w. w\<lparr>app := setStops updatedStops (app w)\<rparr>),
      onError = (\<lambda>error w. console_log (''WebSocket error: '' @ error) w)\<rparr>"

subsection \<open>Thrown values and \<^verbatim>\<open>handleAPIError\<close>\<close>

text \<open>
  A thrown value is an \<^verbatim>\<open>Error\<close> with its message, or something else. A computation that
  may throw returns \<open>thrown + 'a\<close>, and \<open>try_catch\<close> is \<^verbatim>\<open>try { \<dots> } catch (error) { \<dots> }\<close>.
\<close>

datatype thrown = Error string | NonError

definition try_catch :: "thrown + 'a \<Rightarrow> (thrown \<Rightarrow> thrown + 'a) \<Rightarrow> thrown + 'a" where
  "try_catch body handler = (case body of Inl error \<Rightarrow> handler error | Inr v \<Rightarrow> Inr v)"

text \<open>\<^verbatim>\<open>s.includes(sub)\<close>: \<open>sub\<close> occurs in \<open>s\<close> as a contiguous substring.\<close>

fun str_includes :: "string \<Rightarrow> string \<Rightarrow> bool" where
  "str_includes [] sub = (sub = [])"
| "str_includes (c # cs) sub = (take (length sub) (c # cs) = sub \<or> str_includes cs sub)"

definition localStorage_removeItem :: "string \<Rightarrow> 'a world \<Rightarrow> 'a world" where
  "localStorage_removeItem k w = w\<lparr>localStorage := (localStorage w)(k := None)\<rparr>"

definition handleAPIError :: "thrown \<Rightarrow> 'a world \<Rightarrow> string \<times> 'a world" where
  "handleAPIError error w =
     (case error of
        Error m \<Rightarrow>
          if str_includes m ''401'' then
            (''Session expired. Please log in again.'',
             localStorage_removeItem ''busTracker_user''
               (localStorage_removeItem ''busTracker_token'' w))
          else if str_includes m ''timeout'' then
            (''Request timed out. Please check your connection and try again.'', w)
          else if str_includes m ''Failed to fetch'' then
            (''Unable to connect to server. Please check your internet connection.'', w)
          else (m, w)
      | NonError \<Rightarrow> (''An unexpected error occurred.'', w))"

subsection \<open>Initial load and polling\<close>

text \<open>
  \<^verbatim>\<open>loadInitialData\<close> in two parts, before and after the \<^verbatim>\<open>await\<close>. The argument of the
  second part is how \<^verbatim>\<open>Promise.all\<close> of the two fetches settled.
\<close>

definition loadInitialData_begin :: "MapState world \<Rightarrow> MapState world" where
  "loadInitialData_begin w = w\<lparr>app := (app w)\<lparr>dataLoading := True\<rparr>\<rparr>"

definition loadInitialData_settled ::
    "thrown + BusLocation list \<times> Stop list \<Rightarrow> MapState world \<Rightarrow> MapState world" where
  "loadInitialData_settled settled w =
     (let w1 =
        (case settled of
           Inr (busesData, stopsData) \<Rightarrow>
             w\<lparr>app := setStops stopsData (setBuses busesData (app w))\<rparr>
         | Inl error \<Rightarrow>
             (case handleAPIError error w of
                (errorMessage, w') \<Rightarrow>
                  console_log ''Map data loading error:''
                    (w'\<lparr>app := toast_show
                             (toast_error (''Failed to load map data: '' @ errorMessage))
                             (app w')\<rparr>)))
      in w1\<lparr>app := (app w1)\<lparr>dataLoading := False\<rparr>\<rparr>)"

record FetchBounds =
  north :: real
  south :: real
  east :: real
  west :: real

text \<open>
  The callback of \<^verbatim>\<open>setInterval\<close>. The argument \<open>getLiveBuses\<close> is how the request for the
  given window settles: \<open>Inl\<close> when the promise rejects. The result is \<open>Inl\<close> when the
  callback itself would end with an exception. The request and its settlement are taken
  as one step.
\<close>

definition poll_tick ::
    "(FetchBounds \<Rightarrow> thrown + BusLocation list) \<Rightarrow> MapState world
       \<Rightarrow> thrown + MapState world" where
  "poll_tick getLiveBuses w =
     try_catch
       (let bounds = \<lparr>north = lat (mapCenter (app w)) + 0.05,
                      south = lat (mapCenter (app w)) - 0.05,
                      east = lng (mapCenter (app w)) + 0.05,
                      west = lng (mapCenter (app w)) - 0.05\<rparr>
        in case getLiveBuses bounds of
             Inl error \<Rightarrow> Inl error
           | Inr updatedBuses \<Rightarrow> Inr (w\<lparr>app := setBuses updatedBuses (app w)\<rparr>))
       (\<lambda>error. Inr (console_log ''Failed to update bus locations:'' w))"

text \<open>
  The effect that owns the transport and the interval: its body, and the cleanup that it
  returns. The body constructs the transport and starts the interval; it calls no method
  of the transport. The world holds one transport, the one of the latest run of the body.
\<close>

definition effect_setup :: "MapState world \<Rightarrow> MapState world" where
  "effect_setup w =
     w\<lparr>self := BusTrackingWebSocket_new, app := (app w)\<lparr>updateInterval := True\<rparr>\<rparr>"

definition effect_cleanup :: "MapState world \<Rightarrow> MapState world" where
  "effect_cleanup w = disconnect (w\<lparr>app := (app w)\<lparr>updateInterval := False\<rparr>\<rparr>)"

subsection \<open>Locate action\<close>

record GeolocationPositionError =
  err_code :: nat
  err_message :: string

definition PERMISSION_DENIED :: nat where "PERMISSION_DENIED = 1"
definition POSITION_UNAVAILABLE :: nat where "POSITION_UNAVAILABLE = 2"
definition TIMEOUT :: nat where "TIMEOUT = 3"

text \<open>The \<^verbatim>\<open>switch\<close> of the error callback.\<close>

definition errorMessage :: "nat \<Rightarrow> string" where
  "errorMessage c =
     (if c = PERMISSION_DENIED then ''Location access denied by user''
      else if c = POSITION_UNAVAILABLE then ''Location information unavailable''
      else if c = TIMEOUT then ''Location request timed out''
      else ''An unknown error occurred while retrieving location'')"

text \<open>\<^verbatim>\<open>getCurrentLocation\<close> up to the request; the flag says whether
  \<^verbatim>\<open>navigator.geolocation\<close> exists.\<close>

definition getCurrentLocation :: "bool \<Rightarrow> MapState world \<Rightarrow> MapState world" where
  "getCurrentLocation has_geolocation w =
     (if \<not> has_geolocation
      then w\<lparr>app := toast_show (toast_error ''Geolocation is not supported by this browser'')
                       (app w)\<rparr>
      else w\<lparr>app := (app w)\<lparr>locationLoading := True\<rparr>\<rparr>)"

definition geolocation_success :: "LatLng \<Rightarrow> MapState world \<Rightarrow> MapState world" where
  "geolocation_success location w =
     w\<lparr>app := toast_show (toast_success ''Location found successfully'')
                ((app w)\<lparr>userLocation := Some location, mapCenter := location,
                         locationLoading := False\<rparr>)\<rparr>"

definition geolocation_error ::
    "GeolocationPositionError \<Rightarrow> MapState world \<Rightarrow> MapState world" where
  "geolocation_error error w =
     (let s1 = (app w)\<lparr>locationLoading := False\<rparr>;
          w1 = console_log ''Geolocation error:'' (w\<lparr>app := s1\<rparr>);
          s2 = toast_show (toast_error (errorMessage (err_code error))) (app w1);
          fallbackLocation = \<lparr>lat = 40.7128, lng = - 74.0060\<rparr>;
          s3 = s2\<lparr>mapCenter := fallbackLocation\<rparr>
      in w1\<lparr>app := toast_show (toast_info ''Using default location: New York City'') s3\<rparr>)"

subsection \<open>Everything that can happen to a mounted Map\<close>

text \<open>
  React runs the effect body on mount and after every change of \<^verbatim>\<open>mapCenter\<close>, and the
  cleanup before each re-run and on unmount. The interval fires only while its handle is
  live. A browser event reaches the transport through \<open>deliver\<close>, with the Map's callbacks.
\<close>

datatype map_event =
  EffectSetup
| EffectCleanup
| LoadBegin
| LoadSettled "thrown + BusLocation list \<times> Stop list"
| IntervalTick "FetchBounds \<Rightarrow> thrown + BusLocation list"
| LocateClick bool
| GeoSuccess LatLng
| GeoError GeolocationPositionError
| ZoomClick zoom_click
| Resize Dimensions
| Browser event

fun Map_step :: "MapState world \<Rightarrow> map_event \<Rightarrow> thrown + MapState world" where
  "Map_step w EffectSetup = Inr (effect_setup w)"
| "Map_step w EffectCleanup = Inr (effect_cleanup w)"
| "Map_step w LoadBegin = Inr (loadInitialData_begin w)"
| "Map_step w (LoadSettled settled) = Inr (loadInitialData_settled settled w)"
| "Map_step w (IntervalTick getLiveBuses) =
     (if updateInterval (app w) then poll_tick getLiveBuses w else Inr w)"
| "Map_step w (LocateClick has_geolocation) = Inr (getCurrentLocation has_geolocation w)"
| "Map_step w (GeoSuccess location) = Inr (geolocation_success location w)"
| "Map_step w (GeoError error) = Inr (geolocation_error error w)"
| "Map_step w (ZoomClick c) = Inr (w\<lparr>app := apply_zoom (app w) c\<rparr>)"
| "Map_step w (Resize d) = Inr (w\<lparr>app := (app w)\<lparr>mapDimensions := d\<rparr>\<rparr>)"
| "Map_step w (Browser e) = Inr (deliver Map_callbacks w e)"

text \<open>A run stops at the first event whose handler ends with an exception.\<close>

fun Map_run :: "MapState world \<Rightarrow> map_event list \<Rightarrow> thrown + MapState world" where
  "Map_run w [] = Inr w"
| "Map_run w (e # es) =
     (case Map_step w e of Inl error \<Rightarrow> Inl error | Inr w' \<Rightarrow> Map_run w' es)"

text \<open>
  The world before the Map mounts: no transport activity, the default configuration of
  config/api.ts, the given \<^verbatim>\<open>localStorage\<close>.
\<close>

definition Map_world :: "(string \<rightharpoonup> string) \<Rightarrow> MapState world" where
  "Map_world storage =
     \<lparr>self = BusTrackingWebSocket_new, sockets = [], timers = [],
      localStorage = storage, wsURL = ''ws://localhost:3001/ws'', invalid_urls = {},
      console = [], app = Map_initial\<rparr>"

section \<open>Fixtures\<close>

text \<open>
  A transport owner that records every string passed to \<^verbatim>\<open>onError\<close>, and a world with the
  default configuration, an empty \<^verbatim>\<open>localStorage\<close> and a freshly constructed transport.
\<close>

definition recording_callbacks :: "string list callbacks" where
  "recording_callbacks =
     \<lparr>onBusUpdate = (\<lambda>updatedBuses w. w),
      onStopUpdate = (\<lambda>updatedStops w. w),
      onError = (\<lambda>error w. w\<lparr>app := app w @ [error]\<rparr>)\<rparr>"

definition fresh_world :: "string list world" where
  "fresh_world =
     \<lparr>self = BusTrackingWebSocket_new, sockets = [], timers = [],
      localStorage = Map.empty, wsURL = ''ws://localhost:3001/ws'', invalid_urls = {},
      console = [], app = []\<rparr>"

text \<open>
  A connection that opens and drops, followed by five reconnection attempts that all fail:
  the browser reports a failed attempt with an error event and then a close event. The
  trace ends just before the close event of the fifth failed attempt.
\<close>

definition failing_trace :: "event list" where
  "failing_trace =
     [SockOpen 0, SockClose 0,
      TimerFire 0, SockError 1, SockClose 1,
      TimerFire 0, SockError 2, SockClose 2,
      TimerFire 0, SockError 3, SockClose 3,
      TimerFire 0, SockError 4, SockClose 4,
      TimerFire 0, SockError 5]"

definition exhausted_world :: "string list world" where
  "exhausted_world = run recording_callbacks failing_trace (connect recording_callbacks fresh_world)"

text \<open>A connection that has just opened.\<close>

definition connected_world :: "string list world" where
  "connected_world =
     run recording_callbacks [SockOpen 0] (connect recording_callbacks fresh_world)"

text \<open>A connection that opened and dropped: one reconnection timer is pending.\<close>

definition pending_world :: "string list world" where
  "pending_world =
     run recording_callbacks [SockOpen 0, SockClose 0] (connect recording_callbacks fresh_world)"

text \<open>The same transport once the timer has expired: a second socket is connecting.\<close>

definition pending_reopened :: "string list world" where
  "pending_reopened = run recording_callbacks [TimerFire 0] pending_world"

text \<open>The Map at the reference zoom level of the projection.\<close>

definition Map_at_zoom10 :: MapState where
  "Map_at_zoom10 = Map_initial\<lparr>zoomLevel := 10\<rparr>"

text \<open>A vehicle with the given id; the other fields are those of the first mock vehicle.\<close>

definition mock_bus :: "string \<Rightarrow> BusLocation" where
  "mock_bus i =
     \<lparr>bus_id = i, bus_routeNumber = ''42'', bus_lat = 40.7128, bus_lng = - 74.0060,
      bus_direction = ''Downtown'', bus_occupancy = medium, bus_nextStop = ''Times Square'',
      bus_estimatedArrival = ''3 min'', bus_vehicleNumber = Some ''BUS-4201'',
      bus_speed = Some 25, bus_delay = Some 2\<rparr>"

text \<open>The transport message that carries the batch with the vehicles 1, 2 and 4.\<close>

definition bus_update_B2 :: ws_message where
  "bus_update_B2 =
     \<lparr>msg_type = ''bus_update'',
      msg_buses = [mock_bus ''1'', mock_bus ''2'', mock_bus ''4''],
      msg_stops = [], msg_message = []\<rparr>"

text \<open>
  A session of the Map: mount, initial load of one vehicle, a socket event and a push
  message that the browser never has a socket to deliver on, unmount.
\<close>

definition mounted_session :: "map_event list" where
  "mounted_session =
     [EffectSetup, LoadBegin, LoadSettled (Inr ([mock_bus ''1''], [])),
      Browser (SockOpen 0), Browser (SockMessage 0 (Some bus_update_B2)),
      EffectCleanup]"

section \<open>Properties\<close>

subsection \<open>Zoom level\<close>

lemma zoom_click_range:
  "8 \<le> zoomLevel s \<Longrightarrow> zoomLevel s \<le> 18 \<Longrightarrow>
   8 \<le> zoomLevel (apply_zoom s c) \<and> zoomLevel (apply_zoom s c) \<le> 18"
  by (cases c) (simp_all add: handleZoomIn_def handleZoomOut_def)

lemma zoom_clicks_range:
  "8 \<le> zoomLevel s \<Longrightarrow> zoomLevel s \<le> 18 \<Longrightarrow>
   8 \<le> zoomLevel (foldl apply_zoom s cs) \<and> zoomLevel (foldl apply_zoom s cs) \<le> 18"
proof (induction cs arbitrary: s)
  case Nil
  then show ?case by simp
next
  case (Cons c cs)
  from zoom_click_range [OF Cons.prems]
  have "8 \<le> zoomLevel (apply_zoom s c)" and "zoomLevel (apply_zoom s c) \<le> 18"
    by simp_all
  from Cons.IH [OF this] show ?case by simp
qed

lemma zoom_click_step:
  "8 \<le> zoomLevel s \<Longrightarrow> zoomLevel s \<le> 18 \<Longrightarrow>
   \<bar>zoomLevel (apply_zoom s c) - zoomLevel s\<bar> \<le> 1"
  by (cases c) (simp_all add: handleZoomIn_def handleZoomOut_def)

text \<open>
  C9. Starting from the initial zoom level 13, after any sequence of zoom-in and zoom-out
  clicks the level \<open>z\<close> lies in \<open>[8, 18]\<close>, and one more click of either kind changes it by
  at most 1 and leaves it in \<open>[8, 18]\<close>; zooming in at 18 and zooming out at 8 change
  nothing.
\<close>

theorem zoom_level_clamped:
  fixes cs :: "zoom_click list" and c :: zoom_click
  defines "s \<equiv> zoom_clicks cs Map_initial"
  shows "8 \<le> zoomLevel s \<and> zoomLevel s \<le> 18
       \<and> \<bar>zoomLevel (apply_zoom s c) - zoomLevel s\<bar> \<le> 1
       \<and> 8 \<le> zoomLevel (apply_zoom s c) \<and> zoomLevel (apply_zoom s c) \<le> 18
       \<and> (zoomLevel s = 18 \<longrightarrow> zoomLevel (handleZoomIn s) = 18)
       \<and> (zoomLevel s = 8 \<longrightarrow> zoomLevel (handleZoomOut s) = 8)"
proof -
  have r: "8 \<le> zoomLevel s \<and> zoomLevel s \<le> 18"
    unfolding s_def zoom_clicks_def
    by (rule zoom_clicks_range) (simp_all add: Map_initial_def)
  then have lo: "8 \<le> zoomLevel s" and hi: "zoomLevel s \<le> 18" by simp_all
  have "\<bar>zoomLevel (apply_zoom s c) - zoomLevel s\<bar> \<le> 1"
    by (rule zoom_click_step [OF lo hi])
  moreover have "8 \<le> zoomLevel (apply_zoom s c) \<and> zoomLevel (apply_zoom s c) \<le> 18"
    by (rule zoom_click_range [OF lo hi])
  moreover have "zoomLevel s = 18 \<longrightarrow> zoomLevel (handleZoomIn s) = 18"
    by (simp add: handleZoomIn_def)
  moreover have "zoomLevel s = 8 \<longrightarrow> zoomLevel (handleZoomOut s) = 8"
    by (simp add: handleZoomOut_def)
  ultimately show ?thesis using r by simp
qed

theorem zoom_level_clamped_witness:
  "zoomLevel (zoom_clicks [ZoomInClick, ZoomInClick, ZoomInClick, ZoomInClick, ZoomInClick]
       Map_initial) = 18
   \<and> zoomLevel (handleZoomIn
        (zoom_clicks [ZoomInClick, ZoomInClick, ZoomInClick, ZoomInClick, ZoomInClick]
           Map_initial)) = 18
   \<and> zoomLevel (zoom_clicks [ZoomOutClick, ZoomOutClick, ZoomOutClick, ZoomOutClick, ZoomOutClick]
        Map_initial) = 8
   \<and> zoomLevel (handleZoomOut
        (zoom_clicks [ZoomOutClick, ZoomOutClick, ZoomOutClick, ZoomOutClick, ZoomOutClick]
           Map_initial)) = 8"
  using
    zoom_level_clamped
      [of "[ZoomInClick, ZoomInClick, ZoomInClick, ZoomInClick, ZoomInClick]" ZoomInClick]
    zoom_level_clamped
      [of "[ZoomOutClick, ZoomOutClick, ZoomOutClick, ZoomOutClick, ZoomOutClick]" ZoomOutClick]
  by (simp add: zoom_clicks_def Map_initial_def handleZoomIn_def handleZoomOut_def)

subsection \<open>Projection of the viewport center\<close>

text \<open>
  C3 (as amended). At the reference zoom level 10, for every center \<open>c\<close> and every viewport
  size, the point whose coordinates equal \<open>c\<close> is drawn at
  \<open>(0.175 * width, 0.872 * height)\<close>: the place of the fixed reference center
  \<open>(40.7128, -74.0060)\<close> inside the bounding box, whatever \<open>c\<close> is.
\<close>

theorem center_projects_to_reference_point:
  assumes "zoomLevel s = 10"
  shows "getMarkerPosition s (lat (mapCenter s)) (lng (mapCenter s)) =
           \<lparr>px_x = 0.175 * width (mapDimensions s), px_y = 0.872 * height (mapDimensions s)\<rparr>"
  using assms
  by (simp add: getMarkerPosition_def latLngToPixel_def BOUNDS_def Let_def)

theorem center_projects_to_reference_point_witness:
  "zoomLevel Map_at_zoom10 = 10
   \<and> getMarkerPosition Map_at_zoom10 40.7128 (- 74.0060) = \<lparr>px_x = 140, px_y = 523.2\<rparr>"
proof -
  have z: "zoomLevel Map_at_zoom10 = 10"
    by (simp add: Map_at_zoom10_def)
  from center_projects_to_reference_point [OF z] show ?thesis
    by (simp add: Map_at_zoom10_def Map_initial_def)
qed

text \<open>
  C3 (as stated) fails: with the initial center and an 800 by 600 viewport at zoom level
  10, the center is drawn at \<open>(140, 523.2)\<close>, which is 260 pixels left of and 223.2 pixels
  below the middle \<open>(400, 300)\<close> of the viewport.
\<close>

theorem center_projection_counterexample:
  "getMarkerPosition Map_at_zoom10 (lat (mapCenter Map_at_zoom10)) (lng (mapCenter Map_at_zoom10))
     = \<lparr>px_x = 140, px_y = 523.2\<rparr>
   \<and> \<not> (\<bar>px_x (getMarkerPosition Map_at_zoom10 (lat (mapCenter Map_at_zoom10))
                (lng (mapCenter Map_at_zoom10)))
           - width (mapDimensions Map_at_zoom10) / 2\<bar> \<le> 1
        \<and> \<bar>px_y (getMarkerPosition Map_at_zoom10 (lat (mapCenter Map_at_zoom10))
                  (lng (mapCenter Map_at_zoom10)))
             - height (mapDimensions Map_at_zoom10) / 2\<bar> \<le> 1)"
  by (simp add: getMarkerPosition_def latLngToPixel_def BOUNDS_def Map_at_zoom10_def
      Map_initial_def Let_def)

lemmas transport_defs = run_def deliver_def connect_def new_WebSocket_def getAuthToken_def
  ws_onopen_def ws_onclose_def ws_onerror_def ws_onmessage_def timer_callback_def reconnect_def send_def
  WebSocket_send_def WebSocket_close_def set_readyState_def console_log_def disconnect_def

lemmas fixture_defs = BusTrackingWebSocket_new_def recording_callbacks_def fresh_world_def

subsection \<open>Reconnection\<close>

lemma reconnect_below_max:
  assumes "reconnectAttempts (self w) < maxReconnectAttempts (self w)"
  shows "reconnectAttempts (self (reconnect w)) = reconnectAttempts (self w) + 1"
    and "timers (reconnect w) = timers w @ [reconnectDelay (self w) * (reconnectAttempts (self w) + 1)]"
    and "app (reconnect w) = app w"
  using assms by (simp_all add: reconnect_def Let_def)

lemma reconnect_at_max:
  assumes "maxReconnectAttempts (self w) \<le> reconnectAttempts (self w)"
  shows "reconnect w = w"
  using assms by (simp add: reconnect_def)

lemma deliver_close:
  "enabled (SockClose sid) w \<Longrightarrow>
   deliver cb w (SockClose sid) =
     reconnect (console_log ''WebSocket disconnected'' (set_readyState sid CLOSED w))"
  by (simp add: deliver_def ws_onclose_def)

lemma log_and_state_fields [simp]:
  "self (console_log l (set_readyState sid r w)) = self w"
  "timers (console_log l (set_readyState sid r w)) = timers w"
  "app (console_log l (set_readyState sid r w)) = app w"
  by (simp_all add: console_log_def set_readyState_def)

lemma timer_fire_valid:
  assumes "k < length (timers w)"
    and "wsURL w @ ''?token='' @ template (getAuthToken w) \<notin> invalid_urls w"
  shows "self (deliver cb w (TimerFire k)) = (self w)\<lparr>ws := Some (length (sockets w))\<rparr>"
    and "sockets (deliver cb w (TimerFire k)) =
           sockets w @ [\<lparr>url = wsURL w @ ''?token='' @ template (getAuthToken w),
                          readyState = CONNECTING, sent = []\<rparr>]"
    and "timers (deliver cb w (TimerFire k)) = take k (timers w) @ drop (Suc k) (timers w)"
    and "app (deliver cb w (TimerFire k)) = app w"
  using assms
  by (simp_all add: deliver_def timer_callback_def connect_def new_WebSocket_def
      getAuthToken_def console_log_def Let_def)

lemma connected_world_facts:
  "enabled (SockClose 0) connected_world"
  "reconnectAttempts (self connected_world) = 0"
  "maxReconnectAttempts (self connected_world) = 5"
  "reconnectDelay (self connected_world) = 1000"
  "timers connected_world = []"
  "app connected_world = []"
  by (simp_all add: connected_world_def transport_defs fixture_defs Let_def)

lemma exhausted_world_facts:
  "enabled (SockClose 5) exhausted_world"
  "reconnectAttempts (self exhausted_world) = 5"
  "maxReconnectAttempts (self exhausted_world) = 5"
  "timers exhausted_world = []"
  "app exhausted_world = replicate 5 ''Connection error occurred''"
  by (simp_all add: exhausted_world_def failing_trace_def transport_defs fixture_defs
      Let_def numeral_eq_Suc)

text \<open>
  C1 (as amended). When a socket of the transport closes: if the attempt counter \<open>n\<close> is
  below the maximum, the counter becomes \<open>n + 1\<close>, exactly one timer is scheduled, with
  delay \<open>reconnectDelay * (n + 1)\<close> (larger than \<open>reconnectDelay * n\<close> for a positive base
  delay), no callback changes the owner's state, and the expiry of a timer (on a URL the
  platform accepts) leaves the counter as it is, so the next closure finds \<open>n + 1\<close>. If the
  counter has reached the maximum, the closure only logs and marks the socket closed: no
  timer is scheduled and no error is surfaced.
\<close>

theorem reconnect_linear_backoff:
  fixes w :: "'a world" and cb :: "'a callbacks"
  assumes closed: "enabled (SockClose sid) w"
  defines "n \<equiv> reconnectAttempts (self w)"
    and "w' \<equiv> deliver cb w (SockClose sid)"
  shows "(n < maxReconnectAttempts (self w) \<longrightarrow>
            reconnectAttempts (self w') = n + 1
          \<and> timers w' = timers w @ [reconnectDelay (self w) * (n + 1)]
          \<and> (0 < reconnectDelay (self w) \<longrightarrow>
                reconnectDelay (self w) * n < reconnectDelay (self w) * (n + 1))
          \<and> app w' = app w
          \<and> (\<forall>k < length (timers w').
                wsURL w' @ ''?token='' @ template (getAuthToken w') \<notin> invalid_urls w' \<longrightarrow>
                reconnectAttempts (self (deliver cb w' (TimerFire k))) = n + 1))
       \<and> (maxReconnectAttempts (self w) \<le> n \<longrightarrow>
            w' = console_log ''WebSocket disconnected'' (set_readyState sid CLOSED w)
          \<and> reconnectAttempts (self w') = n \<and> timers w' = timers w \<and> app w' = app w)"
proof -
  let ?v = "console_log ''WebSocket disconnected'' (set_readyState sid CLOSED w)"
  have w': "w' = reconnect ?v"
    unfolding w'_def by (rule deliver_close [OF closed])
  have mono: "reconnectDelay (self w) * n < reconnectDelay (self w) * (n + 1)"
    if "0 < reconnectDelay (self w)"
    using that by simp
  have below: "reconnectAttempts (self w') = n + 1
      \<and> timers w' = timers w @ [reconnectDelay (self w) * (n + 1)] \<and> app w' = app w"
    if "n < maxReconnectAttempts (self w)"
  proof -
    from that have "reconnectAttempts (self ?v) < maxReconnectAttempts (self ?v)"
      by (simp add: n_def)
    from reconnect_below_max [OF this] show ?thesis
      by (simp add: w' n_def)
  qed
  have fire: "reconnectAttempts (self (deliver cb w' (TimerFire k))) = n + 1"
    if "n < maxReconnectAttempts (self w)" and "k < length (timers w')"
      and "wsURL w' @ ''?token='' @ template (getAuthToken w') \<notin> invalid_urls w'" for k
    using timer_fire_valid(1) [OF that(2,3)] below [OF that(1)] by simp
  have at_max: "w' = ?v \<and> reconnectAttempts (self w') = n \<and> timers w' = timers w \<and> app w' = app w"
    if "maxReconnectAttempts (self w) \<le> n"
  proof -
    from that have "maxReconnectAttempts (self ?v) \<le> reconnectAttempts (self ?v)"
      by (simp add: n_def)
    from reconnect_at_max [OF this] show ?thesis
      by (simp add: w' n_def)
  qed
  from mono below fire at_max show ?thesis by blast
qed

theorem reconnect_linear_backoff_witness:
  "enabled (SockClose 0) connected_world
   \<and> reconnectAttempts (self (deliver recording_callbacks connected_world (SockClose 0))) = 1
   \<and> timers (deliver recording_callbacks connected_world (SockClose 0)) = [1000]
   \<and> app (deliver recording_callbacks connected_world (SockClose 0)) = []
   \<and> enabled (SockClose 5) exhausted_world
   \<and> reconnectAttempts (self (deliver recording_callbacks exhausted_world (SockClose 5))) = 5
   \<and> timers (deliver recording_callbacks exhausted_world (SockClose 5)) = []"
proof -
  have c: "enabled (SockClose 0) connected_world"
    by (rule connected_world_facts(1))
  have e: "enabled (SockClose 5) exhausted_world"
    by (rule exhausted_world_facts(1))
  from reconnect_linear_backoff [OF c, of recording_callbacks]
  have "reconnectAttempts (self (deliver recording_callbacks connected_world (SockClose 0))) = 1
      \<and> timers (deliver recording_callbacks connected_world (SockClose 0)) = [1000]
      \<and> app (deliver recording_callbacks connected_world (SockClose 0)) = []"
    by (simp add: connected_world_facts(2-))
  moreover from reconnect_linear_backoff [OF e, of recording_callbacks]
  have "reconnectAttempts (self (deliver recording_callbacks exhausted_world (SockClose 5))) = 5
      \<and> timers (deliver recording_callbacks exhausted_world (SockClose 5)) = []"
    by (simp add: exhausted_world_facts(2-))
  ultimately show ?thesis
    using c e by (simp del: enabled.simps)
qed

text \<open>
  C1 (as stated) fails: after a connection that opened and dropped and five failed
  reconnection attempts, the counter is at the maximum; the closure of the last attempt
  schedules nothing and calls \<^verbatim>\<open>onError\<close> not once: the owner has seen the five
  per-attempt connection errors of the \<^verbatim>\<open>onerror\<close> handler and sees nothing more.
\<close>

theorem terminal_error_counterexample:
  "reconnectAttempts (self exhausted_world) = maxReconnectAttempts (self exhausted_world)
   \<and> enabled (SockClose 5) exhausted_world
   \<and> app exhausted_world = replicate 5 ''Connection error occurred''
   \<and> app (deliver recording_callbacks exhausted_world (SockClose 5)) = app exhausted_world
   \<and> timers (deliver recording_callbacks exhausted_world (SockClose 5)) = []"
proof -
  let ?v = "console_log ''WebSocket disconnected'' (set_readyState 5 CLOSED exhausted_world)"
  have "maxReconnectAttempts (self ?v) \<le> reconnectAttempts (self ?v)"
    by (simp add: exhausted_world_facts(2-))
  then have "reconnect ?v = ?v"
    by (rule reconnect_at_max)
  then have d: "deliver recording_callbacks exhausted_world (SockClose 5) = ?v"
    by (simp only: deliver_close [OF exhausted_world_facts(1)])
  show ?thesis
    unfolding d using exhausted_world_facts by (simp del: enabled.simps)
qed

subsection \<open>Teardown\<close>

lemma disconnect_fields:
  "ws (self (disconnect w)) = None"
  "timers (disconnect w) = timers w"
  "reconnectAttempts (self (disconnect w)) = reconnectAttempts (self w)"
  "app (disconnect w) = app w"
  "length (sockets (disconnect w)) = length (sockets w)"
  "wsURL (disconnect w) = wsURL w"
  "getAuthToken (disconnect w) = getAuthToken w"
  "invalid_urls (disconnect w) = invalid_urls w"
  by (simp_all add: disconnect_def WebSocket_close_def getAuthToken_def split: option.split)

lemma disconnect_twice: "disconnect (disconnect w) = disconnect w"
  by (simp add: disconnect_def [of "disconnect w"] disconnect_fields(1))

lemma disconnect_null:
  "ws (self w) = None \<Longrightarrow> disconnect w = w"
  by (simp add: disconnect_def)

lemma disconnect_sockets:
  "sockets (disconnect w) =
     (case ws (self w) of
        None \<Rightarrow> sockets w
      | Some sid \<Rightarrow>
          if sid < length (sockets w) \<and> readyState (sockets w ! sid) \<in> {CONNECTING, OPEN}
          then (sockets w)[sid := (sockets w ! sid)\<lparr>readyState := CLOSING\<rparr>]
          else sockets w)"
  by (auto simp: disconnect_def WebSocket_close_def split: option.split)

lemma disconnect_current_socket:
  assumes "ws (self w) = Some sid" and "sid < length (sockets w)"
  shows "sockets (disconnect w) ! sid =
           (sockets w ! sid)\<lparr>readyState :=
              (if readyState (sockets w ! sid) \<in> {CONNECTING, OPEN} then CLOSING
               else readyState (sockets w ! sid))\<rparr>"
  using assms by (simp add: disconnect_sockets)

lemma disconnect_other_socket:
  assumes "ws (self w) \<noteq> Some j"
  shows "sockets (disconnect w) ! j = sockets w ! j"
proof (cases "ws (self w)")
  case None
  then show ?thesis by (simp add: disconnect_sockets)
next
  case (Some sid)
  with assms have "sid \<noteq> j" by simp
  with Some show ?thesis by (simp add: disconnect_sockets)
qed

lemma pending_world_facts:
  "timers pending_world = [1000]"
  "map readyState (sockets pending_world) = [CLOSED]"
  "ws (self pending_world) = Some 0"
  "wsURL pending_world @ ''?token='' @ template (getAuthToken pending_world)
     \<notin> invalid_urls pending_world"
  by (simp_all add: pending_world_def transport_defs fixture_defs Let_def)

lemma connected_world_socket:
  "ws (self connected_world) = Some 0"
  "length (sockets connected_world) = 1"
  "readyState (sockets connected_world ! 0) = OPEN"
  by (simp_all add: connected_world_def transport_defs fixture_defs Let_def)

lemma pending_reopened_sockets:
  "ws (self pending_reopened) = Some 1"
  "length (sockets pending_reopened) = 2"
  "readyState (sockets pending_reopened ! 0) = CLOSED"
  "readyState (sockets pending_reopened ! 1) = CONNECTING"
  by (simp_all add: pending_reopened_def pending_world_def transport_defs fixture_defs Let_def)

text \<open>
  C4 (as amended). \<^verbatim>\<open>disconnect()\<close> is idempotent and defined in every state. It starts
  closing the current socket, if there is one: that socket goes to \<open>CLOSING\<close> when it was
  \<open>CONNECTING\<close> or \<open>OPEN\<close> and keeps its state otherwise, its URL and sent payloads are
  kept, and every other socket is untouched. It clears the socket field, and with no
  current socket it changes nothing; the attempt counter and the owner's state are kept.
  It leaves the pending reconnection timers as they are: every timer pending before the
  call is still pending after it, and its expiry (on a URL the platform accepts) opens a
  new socket and makes it the current one.
\<close>

theorem disconnect_idempotent_keeps_timers:
  fixes w :: "'a world" and cb :: "'a callbacks"
  defines "d \<equiv> disconnect w"
  shows "disconnect d = d
       \<and> ws (self d) = None
       \<and> length (sockets d) = length (sockets w)
       \<and> (\<forall>sid < length (sockets w). ws (self w) = Some sid \<longrightarrow>
             sockets d ! sid =
               (sockets w ! sid)\<lparr>readyState :=
                  (if readyState (sockets w ! sid) \<in> {CONNECTING, OPEN} then CLOSING
                   else readyState (sockets w ! sid))\<rparr>)
       \<and> (\<forall>j < length (sockets w). ws (self w) \<noteq> Some j \<longrightarrow> sockets d ! j = sockets w ! j)
       \<and> (ws (self w) = None \<longrightarrow> d = w)
       \<and> reconnectAttempts (self d) = reconnectAttempts (self w)
       \<and> app d = app w
       \<and> timers d = timers w
       \<and> (\<forall>k < length (timers w). enabled (TimerFire k) d)
       \<and> (\<forall>k < length (timers w).
             wsURL w @ ''?token='' @ template (getAuthToken w) \<notin> invalid_urls w \<longrightarrow>
             length (sockets (deliver cb d (TimerFire k))) = length (sockets w) + 1
           \<and> ws (self (deliver cb d (TimerFire k))) = Some (length (sockets w))
           \<and> readyState (last (sockets (deliver cb d (TimerFire k)))) = CONNECTING)"
proof -
  have idem: "disconnect d = d"
    unfolding d_def by (rule disconnect_twice)
  have fields: "ws (self d) = None" "timers d = timers w"
    unfolding d_def by (simp_all add: disconnect_fields)
  have kept: "length (sockets d) = length (sockets w)"
    "reconnectAttempts (self d) = reconnectAttempts (self w)" "app d = app w"
    unfolding d_def by (simp_all add: disconnect_fields)
  have current: "sockets d ! sid =
      (sockets w ! sid)\<lparr>readyState :=
         (if readyState (sockets w ! sid) \<in> {CONNECTING, OPEN} then CLOSING
          else readyState (sockets w ! sid))\<rparr>"
    if "sid < length (sockets w)" and "ws (self w) = Some sid" for sid
    unfolding d_def by (rule disconnect_current_socket [OF that(2,1)])
  have others: "sockets d ! j = sockets w ! j" if "ws (self w) \<noteq> Some j" for j
    unfolding d_def by (rule disconnect_other_socket [OF that])
  have null: "d = w" if "ws (self w) = None"
    unfolding d_def by (rule disconnect_null [OF that])
  have pending: "enabled (TimerFire k) d" if "k < length (timers w)" for k
    using that by (simp add: fields)
  have fires: "length (sockets (deliver cb d (TimerFire k))) = length (sockets w) + 1
      \<and> ws (self (deliver cb d (TimerFire k))) = Some (length (sockets w))
      \<and> readyState (last (sockets (deliver cb d (TimerFire k)))) = CONNECTING"
    if k: "k < length (timers w)"
      and ok: "wsURL w @ ''?token='' @ template (getAuthToken w) \<notin> invalid_urls w" for k
  proof -
    from k have k': "k < length (timers d)"
      by (simp add: fields)
    from ok have ok': "wsURL d @ ''?token='' @ template (getAuthToken d) \<notin> invalid_urls d"
      unfolding d_def by (simp add: disconnect_fields)
    from timer_fire_valid(1,2) [OF k' ok', of cb] show ?thesis
      unfolding d_def by (simp add: disconnect_fields)
  qed
  from idem fields kept current others null pending fires show ?thesis by blast
qed

theorem disconnect_idempotent_keeps_timers_witness:
  "ws (self connected_world) = Some 0
   \<and> readyState (sockets connected_world ! 0) = OPEN
   \<and> readyState (sockets (disconnect connected_world) ! 0) = CLOSING
   \<and> ws (self (disconnect connected_world)) = None
   \<and> ws (self pending_reopened) = Some 1
   \<and> readyState (sockets pending_reopened ! 1) = CONNECTING
   \<and> readyState (sockets (disconnect pending_reopened) ! 1) = CLOSING
   \<and> readyState (sockets (disconnect pending_reopened) ! 0) = CLOSED
   \<and> ws (self fresh_world) = None
   \<and> disconnect fresh_world = fresh_world
   \<and> 0 < length (timers pending_world)
   \<and> wsURL pending_world @ ''?token='' @ template (getAuthToken pending_world)
       \<notin> invalid_urls pending_world
   \<and> disconnect (disconnect pending_world) = disconnect pending_world
   \<and> timers (disconnect pending_world) = [1000]
   \<and> length (sockets (deliver recording_callbacks (disconnect pending_world) (TimerFire 0))) = 2
   \<and> ws (self (deliver recording_callbacks (disconnect pending_world) (TimerFire 0))) = Some 1"
proof -
  note live = disconnect_idempotent_keeps_timers [of connected_world recording_callbacks]
  note two = disconnect_idempotent_keeps_timers [of pending_reopened recording_callbacks]
  note none = disconnect_idempotent_keeps_timers [of fresh_world recording_callbacks]
  note late = disconnect_idempotent_keeps_timers [of pending_world recording_callbacks]
  from live have live_current:
    "sockets (disconnect connected_world) ! 0 =
       (sockets connected_world ! 0)\<lparr>readyState :=
          (if readyState (sockets connected_world ! 0) \<in> {CONNECTING, OPEN} then CLOSING
           else readyState (sockets connected_world ! 0))\<rparr>"
    using connected_world_socket(1,2) by (metis zero_less_one)
  from two have two_current:
    "sockets (disconnect pending_reopened) ! 1 =
       (sockets pending_reopened ! 1)\<lparr>readyState :=
          (if readyState (sockets pending_reopened ! 1) \<in> {CONNECTING, OPEN} then CLOSING
           else readyState (sockets pending_reopened ! 1))\<rparr>"
    using pending_reopened_sockets(1,2) by (metis one_less_numeral_iff semiring_norm(76))
  from two have two_other:
    "sockets (disconnect pending_reopened) ! 0 = sockets pending_reopened ! 0"
    using pending_reopened_sockets(1,2)
    by (metis option.inject zero_less_numeral zero_neq_one)
  have "readyState (sockets (disconnect connected_world) ! 0) = CLOSING"
    by (simp add: live_current connected_world_socket(3))
  moreover from live have "ws (self (disconnect connected_world)) = None"
    by blast
  moreover have "readyState (sockets (disconnect pending_reopened) ! 1) = CLOSING"
    using two_current pending_reopened_sockets(4) by simp
  moreover have "readyState (sockets (disconnect pending_reopened) ! 0) = CLOSED"
    by (simp add: two_other pending_reopened_sockets(3))
  moreover have f: "ws (self fresh_world) = None"
    by (simp add: fixture_defs)
  moreover from none f have "disconnect fresh_world = fresh_world"
    by blast
  moreover have k: "0 < length (timers pending_world)"
    by (simp add: pending_world_facts)
  moreover have len: "length (sockets pending_world) = 1"
    using pending_world_facts(2) [THEN arg_cong, of length] by simp
  moreover from late k pending_world_facts(4)
  have "disconnect (disconnect pending_world) = disconnect pending_world
      \<and> timers (disconnect pending_world) = [1000]
      \<and> length (sockets (deliver recording_callbacks (disconnect pending_world) (TimerFire 0))) = 2
      \<and> ws (self (deliver recording_callbacks (disconnect pending_world) (TimerFire 0))) = Some 1"
    by (simp add: pending_world_facts(1) len)
  ultimately show ?thesis
    using connected_world_socket pending_reopened_sockets pending_world_facts(4)
    by simp
qed

text \<open>
  C4 (as stated) fails: a transport whose connection opened and dropped has one
  reconnection timer pending. After \<^verbatim>\<open>disconnect()\<close> the timer is still pending, and when
  it expires a second socket is opened and becomes the current one.
\<close>

theorem disconnect_timer_counterexample:
  "timers (disconnect pending_world) = [1000]
   \<and> enabled (TimerFire 0) (disconnect pending_world)
   \<and> map readyState
         (sockets (deliver recording_callbacks (disconnect pending_world) (TimerFire 0)))
       = [CLOSED, CONNECTING]
   \<and> ws (self (deliver recording_callbacks (disconnect pending_world) (TimerFire 0))) = Some 1"
  by (simp add: pending_world_def transport_defs fixture_defs Let_def)

subsection \<open>Opening a connection\<close>

text \<open>
  C5. With no \<^verbatim>\<open>busTracker_token\<close> in \<^verbatim>\<open>localStorage\<close>, \<^verbatim>\<open>connect()\<close> opens the socket on
  the configured URL followed by \<^verbatim>\<open>?token=null\<close>: the query parameter is present and
  carries the text \<^verbatim>\<open>null\<close>. No error is reported.
\<close>

theorem connect_without_token_url:
  "getAuthToken fresh_world = None
   \<and> map url (sockets (connect recording_callbacks fresh_world))
       = [''ws://localhost:3001/ws?token=null'']
   \<and> app (connect recording_callbacks fresh_world) = []"
  by (simp add: transport_defs fixture_defs Let_def)

text \<open>
  C6. When the socket that the transport currently holds opens, the attempt counter is
  reset to zero and exactly one payload is sent on that socket, the subscription
  \<^verbatim>\<open>{ type: "subscribe", data: ["buses", "stops"] }\<close>; no other socket is touched.
\<close>

theorem open_resets_and_subscribes:
  fixes w :: "'a world" and cb :: "'a callbacks"
  assumes current: "ws (self w) = Some sid"
    and opens: "enabled (SockOpen sid) w"
  defines "w' \<equiv> deliver cb w (SockOpen sid)"
  shows "reconnectAttempts (self w') = 0
       \<and> readyState (sockets w' ! sid) = OPEN
       \<and> sent (sockets w' ! sid) = sent (sockets w ! sid) @ [subscribe_message]
       \<and> length (sockets w') = length (sockets w)
       \<and> (\<forall>j < length (sockets w). j \<noteq> sid \<longrightarrow> sockets w' ! j = sockets w ! j)
       \<and> subscribe_message =
           JObject [(''type'', JString ''subscribe''),
                    (''data'', JArray [JString ''buses'', JString ''stops''])]"
  using assms
  by (simp add: deliver_def ws_onopen_def send_def WebSocket_send_def set_readyState_def
      console_log_def subscribe_message_def Let_def)

theorem open_resets_and_subscribes_witness:
  "ws (self pending_reopened) = Some 1
   \<and> enabled (SockOpen 1) pending_reopened
   \<and> reconnectAttempts (self pending_reopened) = 1
   \<and> sent (sockets pending_reopened ! 1) = []
   \<and> reconnectAttempts (self (deliver recording_callbacks pending_reopened (SockOpen 1))) = 0
   \<and> sent (sockets (deliver recording_callbacks pending_reopened (SockOpen 1)) ! 1)
       = [subscribe_message]"
proof -
  have f: "ws (self pending_reopened) = Some 1" "enabled (SockOpen 1) pending_reopened"
    "reconnectAttempts (self pending_reopened) = 1"
    "sent (sockets pending_reopened ! 1) = []"
    by (simp_all add: pending_reopened_def pending_world_def transport_defs fixture_defs Let_def)
  from open_resets_and_subscribes [OF f(1,2), of recording_callbacks]
  have "reconnectAttempts (self (deliver recording_callbacks pending_reopened (SockOpen 1))) = 0"
    and "sent (sockets (deliver recording_callbacks pending_reopened (SockOpen 1)) ! 1)
       = sent (sockets pending_reopened ! 1) @ [subscribe_message]"
    by blast+
  with f show ?thesis
    by (simp del: enabled.simps)
qed

subsection \<open>Fleet state store\<close>

lemma poll_tick_resolved:
  "poll_tick (\<lambda>bounds. Inr B) w = Inr (w\<lparr>app := setBuses B (app w)\<rparr>)"
  by (simp add: poll_tick_def try_catch_def Let_def)

lemma handleMessage_bus_update:
  "msg_type m = ''bus_update'' \<Longrightarrow>
   handleMessage Map_callbacks m w = w\<lparr>app := setBuses (msg_buses m) (app w)\<rparr>"
  by (simp add: handleMessage_def Map_callbacks_def)

text \<open>
  C2. Merging a vehicle batch is \<^verbatim>\<open>setBuses\<close>: whatever the store held, afterwards the
  vehicle collection is the batch and the stops are untouched. After two batches the
  store holds the second one, so a vehicle id that is not in the second batch is not in
  the store. The transport's \<^verbatim>\<open>bus_update\<close> message, a resolved poll and a resolved
  initial load all merge this way.
\<close>

theorem mergeVehicles_replaces_collection:
  fixes s :: MapState and w :: "MapState world"
  shows "buses (setBuses B s) = B
       \<and> stops (setBuses B s) = stops s
       \<and> buses (setBuses B2 (setBuses B1 s)) = B2
       \<and> (\<forall>i. i \<notin> bus_id ` set B2 \<longrightarrow> i \<notin> bus_id ` set (buses (setBuses B2 (setBuses B1 s))))
       \<and> (msg_type m = ''bus_update'' \<longrightarrow>
             app (handleMessage Map_callbacks m w) = setBuses (msg_buses m) (app w))
       \<and> poll_tick (\<lambda>bounds. Inr B) w = Inr (w\<lparr>app := setBuses B (app w)\<rparr>)
       \<and> buses (app (loadInitialData_settled (Inr (B, S)) w)) = B"
proof -
  have "buses (setBuses B s) = B" "stops (setBuses B s) = stops s"
    "buses (setBuses B2 (setBuses B1 s)) = B2"
    by (simp_all add: setBuses_def)
  moreover have "msg_type m = ''bus_update'' \<longrightarrow>
      app (handleMessage Map_callbacks m w) = setBuses (msg_buses m) (app w)"
    by (simp add: handleMessage_bus_update)
  moreover have "buses (app (loadInitialData_settled (Inr (B, S)) w)) = B"
    by (simp add: loadInitialData_settled_def setBuses_def setStops_def)
  ultimately show ?thesis
    by (simp add: poll_tick_resolved)
qed

theorem mergeVehicles_replaces_collection_witness:
  "''3'' \<in> bus_id ` set [mock_bus ''1'', mock_bus ''2'', mock_bus ''3'']
   \<and> ''3'' \<notin> bus_id ` set [mock_bus ''1'', mock_bus ''2'', mock_bus ''4'']
   \<and> ''3'' \<notin> bus_id ` set (buses
        (setBuses [mock_bus ''1'', mock_bus ''2'', mock_bus ''4'']
          (setBuses [mock_bus ''1'', mock_bus ''2'', mock_bus ''3''] Map_initial)))
   \<and> msg_type bus_update_B2 = ''bus_update''
   \<and> buses (app (handleMessage Map_callbacks bus_update_B2
        ((Map_world Map.empty)\<lparr>app := setBuses [mock_bus ''1'', mock_bus ''2'', mock_bus ''3'']
                                         Map_initial\<rparr>)))
       = [mock_bus ''1'', mock_bus ''2'', mock_bus ''4'']"
proof -
  have a: "''3'' \<in> bus_id ` set [mock_bus ''1'', mock_bus ''2'', mock_bus ''3'']"
    and b: "''3'' \<notin> bus_id ` set [mock_bus ''1'', mock_bus ''2'', mock_bus ''4'']"
    and t: "msg_type bus_update_B2 = ''bus_update''"
    and m: "msg_buses bus_update_B2 = [mock_bus ''1'', mock_bus ''2'', mock_bus ''4'']"
    by (simp_all add: mock_bus_def bus_update_B2_def)
  from mergeVehicles_replaces_collection
    [of "[mock_bus ''1'', mock_bus ''2'', mock_bus ''4'']" Map_initial
      "[mock_bus ''1'', mock_bus ''2'', mock_bus ''4'']"
      "[mock_bus ''1'', mock_bus ''2'', mock_bus ''3'']" bus_update_B2
      "(Map_world Map.empty)\<lparr>app := setBuses [mock_bus ''1'', mock_bus ''2'', mock_bus ''3'']
                                       Map_initial\<rparr>"]
    a b t m
  show ?thesis
    by (simp add: setBuses_def)
qed

subsection \<open>Locate action\<close>

text \<open>
  C7. When the geolocation request fails, the Map shows the message chosen by the error
  code, then the advisory about the default location, and sets the center to
  \<open>(40.7128, -74.0060)\<close>. Permission denied, position unavailable, timeout and any other
  code give four different messages.
\<close>

theorem geolocation_error_falls_back:
  fixes w :: "MapState world" and error :: GeolocationPositionError
  defines "s' \<equiv> app (geolocation_error error w)"
  shows "mapCenter s' = \<lparr>lat = 40.7128, lng = - 74.0060\<rparr>
       \<and> toasts s' = toasts (app w) @
           [toast_error (errorMessage (err_code error)),
            toast_info ''Using default location: New York City'']
       \<and> locationLoading s' = False
       \<and> errorMessage PERMISSION_DENIED = ''Location access denied by user''
       \<and> errorMessage POSITION_UNAVAILABLE = ''Location information unavailable''
       \<and> errorMessage TIMEOUT = ''Location request timed out''
       \<and> (c \<notin> {PERMISSION_DENIED, POSITION_UNAVAILABLE, TIMEOUT} \<longrightarrow>
             errorMessage c = ''An unknown error occurred while retrieving location'')
       \<and> distinct [errorMessage PERMISSION_DENIED, errorMessage POSITION_UNAVAILABLE,
                    errorMessage TIMEOUT, errorMessage 0]"
proof -
  have "mapCenter s' = \<lparr>lat = 40.7128, lng = - 74.0060\<rparr>"
    and "toasts s' = toasts (app w) @
           [toast_error (errorMessage (err_code error)),
            toast_info ''Using default location: New York City'']"
    and "locationLoading s' = False"
    unfolding s'_def
    by (simp_all add: geolocation_error_def toast_show_def console_log_def Let_def)
  moreover have "errorMessage PERMISSION_DENIED = ''Location access denied by user''"
    and "errorMessage POSITION_UNAVAILABLE = ''Location information unavailable''"
    and "errorMessage TIMEOUT = ''Location request timed out''"
    and "errorMessage 0 = ''An unknown error occurred while retrieving location''"
    by (simp_all add: errorMessage_def PERMISSION_DENIED_def POSITION_UNAVAILABLE_def TIMEOUT_def)
  moreover have "c \<notin> {PERMISSION_DENIED, POSITION_UNAVAILABLE, TIMEOUT} \<longrightarrow>
      errorMessage c = ''An unknown error occurred while retrieving location''"
    by (simp add: errorMessage_def)
  ultimately show ?thesis by simp
qed

theorem geolocation_error_falls_back_witness:
  "(7::nat) \<notin> {PERMISSION_DENIED, POSITION_UNAVAILABLE, TIMEOUT}
   \<and> errorMessage 7 = ''An unknown error occurred while retrieving location''
   \<and> mapCenter (app (geolocation_error \<lparr>err_code = PERMISSION_DENIED, err_message = ''denied''\<rparr>
         (Map_world Map.empty))) = \<lparr>lat = 40.7128, lng = - 74.0060\<rparr>
   \<and> mapCenter (app (geolocation_error \<lparr>err_code = TIMEOUT, err_message = ''timeout''\<rparr>
         (Map_world Map.empty))) = \<lparr>lat = 40.7128, lng = - 74.0060\<rparr>
   \<and> toasts (app (geolocation_error \<lparr>err_code = PERMISSION_DENIED, err_message = ''denied''\<rparr>
         (Map_world Map.empty)))
       = [toast_error ''Location access denied by user'',
          toast_info ''Using default location: New York City'']
   \<and> toasts (app (geolocation_error \<lparr>err_code = TIMEOUT, err_message = ''timeout''\<rparr>
         (Map_world Map.empty)))
       = [toast_error ''Location request timed out'',
          toast_info ''Using default location: New York City'']"
proof -
  have u: "(7::nat) \<notin> {PERMISSION_DENIED, POSITION_UNAVAILABLE, TIMEOUT}"
    by (simp add: PERMISSION_DENIED_def POSITION_UNAVAILABLE_def TIMEOUT_def)
  have t: "toasts (app (Map_world Map.empty)) = []"
    by (simp add: Map_world_def Map_initial_def)
  from geolocation_error_falls_back
      [of "\<lparr>err_code = PERMISSION_DENIED, err_message = ''denied''\<rparr>" "Map_world Map.empty" 7]
    geolocation_error_falls_back
      [of "\<lparr>err_code = TIMEOUT, err_message = ''timeout''\<rparr>" "Map_world Map.empty" 7]
    u t
  show ?thesis by simp
qed

subsection \<open>Polling\<close>

text \<open>
  C8. When the fetch of a poll tick rejects, the tick ends normally; the Map state
  (vehicles, stops, and the interval handle with them) is what it was, and only a console
  line is added. The interval being live, the next tick runs, and if its fetch resolves
  the store holds its batch.
\<close>

theorem failed_poll_keeps_store:
  fixes w :: "MapState world"
  assumes rejects:
    "getLiveBuses \<lparr>north = lat (mapCenter (app w)) + 0.05,
                    south = lat (mapCenter (app w)) - 0.05,
                    east = lng (mapCenter (app w)) + 0.05,
                    west = lng (mapCenter (app w)) - 0.05\<rparr> = Inl error"
    and live: "updateInterval (app w)"
  shows "Map_step w (IntervalTick getLiveBuses)
           = Inr (console_log ''Failed to update bus locations:'' w)
       \<and> app (console_log ''Failed to update bus locations:'' w) = app w
       \<and> (\<exists>w'. Map_run w [IntervalTick getLiveBuses] = Inr w'
               \<and> buses (app w') = buses (app w) \<and> stops (app w') = stops (app w)
               \<and> updateInterval (app w'))
       \<and> (\<exists>w''. Map_run w [IntervalTick getLiveBuses, IntervalTick (\<lambda>bounds. Inr B)] = Inr w''
               \<and> buses (app w'') = B \<and> stops (app w'') = stops (app w))"
proof -
  let ?w' = "console_log ''Failed to update bus locations:'' w"
  have tick: "Map_step w (IntervalTick getLiveBuses) = Inr ?w'"
    using rejects live by (simp add: poll_tick_def try_catch_def Let_def)
  have same: "app ?w' = app w"
    by (simp add: console_log_def)
  have one: "Map_run w [IntervalTick getLiveBuses] = Inr ?w'"
    by (simp add: tick del: Map_step.simps)
  have next_tick: "Map_step ?w' (IntervalTick (\<lambda>bounds. Inr B))
      = Inr (?w'\<lparr>app := setBuses B (app ?w')\<rparr>)"
    using live by (simp add: same poll_tick_resolved)
  have two: "Map_run w [IntervalTick getLiveBuses, IntervalTick (\<lambda>bounds. Inr B)]
      = Inr (?w'\<lparr>app := setBuses B (app ?w')\<rparr>)"
    by (simp add: tick next_tick del: Map_step.simps)
  have "buses (app (?w'\<lparr>app := setBuses B (app ?w')\<rparr>)) = B"
    and "stops (app (?w'\<lparr>app := setBuses B (app ?w')\<rparr>)) = stops (app w)"
    by (simp_all add: setBuses_def same)
  with tick same one two live show ?thesis
    by (simp del: Map_step.simps Map_run.simps)
qed

theorem failed_poll_keeps_store_witness:
  "updateInterval (app (effect_setup (Map_world Map.empty)))
   \<and> Map_run (effect_setup (Map_world Map.empty))
        [LoadSettled (Inr ([mock_bus ''1''], [])),
         IntervalTick (\<lambda>bounds. Inl (Error ''Failed to fetch''))]
       = Inr (console_log ''Failed to update bus locations:''
               (loadInitialData_settled (Inr ([mock_bus ''1''], []))
                 (effect_setup (Map_world Map.empty))))
   \<and> buses (app (console_log ''Failed to update bus locations:''
               (loadInitialData_settled (Inr ([mock_bus ''1''], []))
                 (effect_setup (Map_world Map.empty))))) = [mock_bus ''1'']"
proof -
  let ?w = "loadInitialData_settled (Inr ([mock_bus ''1''], [])) (effect_setup (Map_world Map.empty))"
  have live0: "updateInterval (app (effect_setup (Map_world Map.empty)))"
    by (simp add: effect_setup_def)
  have live: "updateInterval (app ?w)"
    by (simp add: loadInitialData_settled_def effect_setup_def setBuses_def setStops_def)
  have b: "buses (app ?w) = [mock_bus ''1'']"
    by (simp add: loadInitialData_settled_def setBuses_def setStops_def)
  have r: "(\<lambda>bounds. Inl (Error ''Failed to fetch''))
      \<lparr>north = lat (mapCenter (app ?w)) + 0.05, south = lat (mapCenter (app ?w)) - 0.05,
       east = lng (mapCenter (app ?w)) + 0.05, west = lng (mapCenter (app ?w)) - 0.05\<rparr>
      = (Inl (Error ''Failed to fetch'') :: thrown + BusLocation list)"
    by simp
  from failed_poll_keeps_store [OF r live] live0 b
  show ?thesis
    by simp
qed

subsection \<open>The Map never opens the live channel\<close>

lemma quiet_not_enabled:
  "sockets w = [] \<Longrightarrow> timers w = [] \<Longrightarrow> \<not> enabled e w"
  by (cases e) simp_all

lemma quiet_deliver:
  "sockets w = [] \<Longrightarrow> timers w = [] \<Longrightarrow> deliver cb w e = w"
  by (simp add: deliver_def quiet_not_enabled)

lemma handleAPIError_transport:
  assumes "handleAPIError error w = (m, w')"
  shows "sockets w' = sockets w \<and> timers w' = timers w \<and> self w' = self w \<and> app w' = app w"
  using assms
  by (auto simp: handleAPIError_def localStorage_removeItem_def split: thrown.splits if_splits)

lemma loadInitialData_settled_transport:
  "sockets (loadInitialData_settled settled w) = sockets w"
  "timers (loadInitialData_settled settled w) = timers w"
  "self (loadInitialData_settled settled w) = self w"
  by (auto simp: loadInitialData_settled_def console_log_def Let_def
      split: sum.split prod.split dest: handleAPIError_transport)

lemma loadInitialData_rejected_buses:
  "buses (app (loadInitialData_settled (Inl error) w)) = buses (app w)"
  by (auto simp: loadInitialData_settled_def console_log_def toast_show_def Let_def
      split: prod.split dest: handleAPIError_transport)

lemma apply_zoom_buses:
  "buses (apply_zoom s c) = buses s"
  by (cases c) (simp_all add: handleZoomIn_def handleZoomOut_def)

lemma poll_tick_total:
  "\<exists>w'. poll_tick getLiveBuses w = Inr w' \<and> sockets w' = sockets w \<and> timers w' = timers w
        \<and> self w' = self w"
  by (simp add: poll_tick_def try_catch_def console_log_def Let_def split: sum.split)

lemma Map_step_quiet:
  assumes "sockets w = []" and "timers w = []" and "ws (self w) = None"
  shows "\<exists>w'. Map_step w e = Inr w' \<and> sockets w' = [] \<and> timers w' = [] \<and> ws (self w') = None"
proof (cases e)
  case EffectSetup
  with assms show ?thesis
    by (simp add: effect_setup_def BusTrackingWebSocket_new_def)
next
  case EffectCleanup
  with assms show ?thesis
    by (simp add: effect_cleanup_def disconnect_null)
next
  case LoadBegin
  with assms show ?thesis
    by (simp add: loadInitialData_begin_def)
next
  case (LoadSettled settled)
  with assms show ?thesis
    by (simp add: loadInitialData_settled_transport)
next
  case (IntervalTick getLiveBuses)
  from poll_tick_total [of getLiveBuses w] obtain w' where
    "poll_tick getLiveBuses w = Inr w'" "sockets w' = sockets w" "timers w' = timers w"
    "self w' = self w"
    by blast
  with assms IntervalTick show ?thesis
    by simp
next
  case (LocateClick has_geolocation)
  with assms show ?thesis
    by (simp add: getCurrentLocation_def)
next
  case (GeoSuccess location)
  with assms show ?thesis
    by (simp add: geolocation_success_def)
next
  case (GeoError error)
  with assms show ?thesis
    by (simp add: geolocation_error_def console_log_def Let_def)
next
  case (ZoomClick c)
  with assms show ?thesis
    by simp
next
  case (Resize d)
  with assms show ?thesis
    by simp
next
  case (Browser e')
  with assms show ?thesis
    by (simp add: quiet_deliver)
qed

lemma Map_run_quiet:
  assumes "sockets w = []" and "timers w = []" and "ws (self w) = None"
  shows "\<exists>w'. Map_run w es = Inr w' \<and> sockets w' = [] \<and> timers w' = [] \<and> ws (self w') = None"
  using assms
proof (induction es arbitrary: w)
  case Nil
  then show ?case by simp
next
  case (Cons e es)
  from Map_step_quiet [OF Cons.prems, of e] obtain w1 where
    step: "Map_step w e = Inr w1" and q: "sockets w1 = []" "timers w1 = []" "ws (self w1) = None"
    by blast
  from Cons.IH [OF q] show ?case
    by (simp add: step del: Map_step.simps)
qed

lemma Map_step_buses_source:
  assumes "sockets w = []" and "timers w = []" and "ws (self w) = None"
    and "Map_step w e = Inr w'" and "buses (app w') \<noteq> buses (app w)"
  shows "(\<exists>batch. e = LoadSettled (Inr batch)) \<or> (\<exists>getLiveBuses. e = IntervalTick getLiveBuses)"
proof (cases e)
  case (LoadSettled settled)
  with assms(4,5) show ?thesis
    by (cases settled) (auto simp: loadInitialData_rejected_buses)
next
  case (Browser e')
  with assms show ?thesis
    by (simp add: quiet_deliver)
next
  case EffectCleanup
  with assms show ?thesis
    by (auto simp: effect_cleanup_def disconnect_null)
next
  case (ZoomClick c)
  with assms(4,5) show ?thesis
    by (auto simp: apply_zoom_buses)
qed (use assms(4,5) in \<open>auto simp: effect_setup_def loadInitialData_begin_def
      getCurrentLocation_def geolocation_success_def geolocation_error_def toast_show_def
      console_log_def Let_def split: if_splits\<close>)

text \<open>
  C10. The constructor leaves the socket field \<^verbatim>\<open>null\<close>, and the effect that constructs the
  transport creates no socket and no timer. From the world before mount, every sequence
  of Map events runs to a world with no socket, no timer and a \<^verbatim>\<open>null\<close> socket field;
  there no browser event can reach the transport, and a step that changes the vehicle
  collection is the settling of the initial load or a tick of the polling interval.
\<close>

theorem Map_never_connects:
  fixes w0 :: "MapState world"
  shows "ws BusTrackingWebSocket_new = None
       \<and> sockets (effect_setup w0) = sockets w0
       \<and> timers (effect_setup w0) = timers w0
       \<and> ws (self (effect_setup w0)) = None
       \<and> (\<exists>w. Map_run (Map_world storage) es = Inr w
             \<and> sockets w = [] \<and> timers w = [] \<and> ws (self w) = None
             \<and> (\<forall>e. \<not> enabled e w)
             \<and> (\<forall>e. deliver Map_callbacks w e = w)
             \<and> (\<forall>e w'. Map_step w e = Inr w' \<and> buses (app w') \<noteq> buses (app w) \<longrightarrow>
                   (\<exists>batch. e = LoadSettled (Inr batch))
                 \<or> (\<exists>getLiveBuses. e = IntervalTick getLiveBuses)))"
proof -
  have ctor: "ws BusTrackingWebSocket_new = None"
    by (simp add: BusTrackingWebSocket_new_def)
  have built: "sockets (effect_setup w0) = sockets w0" "timers (effect_setup w0) = timers w0"
    "ws (self (effect_setup w0)) = None"
    by (simp_all add: effect_setup_def ctor)
  have "sockets (Map_world storage) = []" "timers (Map_world storage) = []"
    "ws (self (Map_world storage)) = None"
    by (simp_all add: Map_world_def ctor)
  from Map_run_quiet [OF this, of es] obtain w where
    run: "Map_run (Map_world storage) es = Inr w"
    and q: "sockets w = []" "timers w = []" "ws (self w) = None"
    by blast
  have "\<forall>e. \<not> enabled e w"
    using q by (simp add: quiet_not_enabled)
  moreover have "\<forall>e. deliver Map_callbacks w e = w"
    using q by (simp add: quiet_deliver)
  moreover have "\<forall>e w'. Map_step w e = Inr w' \<and> buses (app w') \<noteq> buses (app w) \<longrightarrow>
      (\<exists>batch. e = LoadSettled (Inr batch)) \<or> (\<exists>getLiveBuses. e = IntervalTick getLiveBuses)"
    using Map_step_buses_source [OF q] by blast
  ultimately show ?thesis
    using ctor built run q by blast
qed

theorem Map_never_connects_witness:
  "\<exists>w. Map_run (Map_world Map.empty) mounted_session = Inr w
      \<and> sockets w = [] \<and> timers w = []
      \<and> buses (app w) = [mock_bus ''1'']
      \<and> buses (app (effect_setup w)) = [mock_bus ''1'']
      \<and> Map_step (effect_setup w) (IntervalTick (\<lambda>bounds. Inr [mock_bus ''2'']))
          = Inr ((effect_setup w)\<lparr>app := setBuses [mock_bus ''2''] (app (effect_setup w))\<rparr>)
      \<and> buses (app ((effect_setup w)\<lparr>app := setBuses [mock_bus ''2''] (app (effect_setup w))\<rparr>))
          \<noteq> buses (app (effect_setup w))"
proof -
  from Map_never_connects [of _ Map.empty mounted_session] obtain w where
    run: "Map_run (Map_world Map.empty) mounted_session = Inr w"
    and q: "sockets w = []" "timers w = []"
    by blast
  have "Map_run (Map_world Map.empty) mounted_session
      = Inr (effect_cleanup (loadInitialData_settled (Inr ([mock_bus ''1''], []))
              (loadInitialData_begin (effect_setup (Map_world Map.empty)))))"
    by (simp add: mounted_session_def quiet_deliver effect_setup_def loadInitialData_begin_def
        loadInitialData_settled_transport Map_world_def)
  with run have w: "w = effect_cleanup (loadInitialData_settled (Inr ([mock_bus ''1''], []))
              (loadInitialData_begin (effect_setup (Map_world Map.empty))))"
    by simp
  have b: "buses (app w) = [mock_bus ''1'']"
    unfolding w
    by (simp add: effect_cleanup_def disconnect_null effect_setup_def loadInitialData_begin_def
        loadInitialData_settled_def setBuses_def setStops_def Map_world_def
        BusTrackingWebSocket_new_def)
  then have b': "buses (app (effect_setup w)) = [mock_bus ''1'']"
    by (simp add: effect_setup_def)
  have t: "Map_step (effect_setup w) (IntervalTick (\<lambda>bounds. Inr [mock_bus ''2'']))
      = Inr ((effect_setup w)\<lparr>app := setBuses [mock_bus ''2''] (app (effect_setup w))\<rparr>)"
    by (simp add: poll_tick_resolved effect_setup_def)
  have n: "buses (app ((effect_setup w)\<lparr>app := setBuses [mock_bus ''2''] (app (effect_setup w))\<rparr>))
      \<noteq> buses (app (effect_setup w))"
    by (simp add: b' setBuses_def mock_bus_def)
  from run q b b' t n show ?thesis
    by blast
qed

end
